theory Spec2Isabelle
  imports Complex_Main
begin

section \<open>Persistence layer\<close>

text \<open>
  The tables of \<^verbatim>\<open>api/config/database.js\<close> as lists of rows, in insertion order.

  The models address two columns that the tables of \<^verbatim>\<open>database.js\<close> do not have:
  \<^verbatim>\<open>api/models/Cart.js\<close> selects \<^verbatim>\<open>stock_quantity\<close> from the products table, which
  declares the stock as \<^verbatim>\<open>stock\<close>, and the order model inserts and updates a column
  \<^verbatim>\<open>notes\<close> of the orders table, which declares none. SQLite refuses a statement that
  names an unknown column, and \<^verbatim>\<open>runQuery\<close>, \<^verbatim>\<open>getRow\<close> and \<^verbatim>\<open>getAllRows\<close> reject
  with that error. The record \<open>schema\<close> says which of the two columns a database has:
  \<open>repository_schema\<close> is the database that \<^verbatim>\<open>initDatabase\<close> creates, and every query
  below fails on it where SQLite does. A database with the columns is modelled as well,
  to show what the models compute once their statements run.

  Prices and quantities are the JavaScript numbers of the source, modelled as exact
  rationals (NaN and the infinities are left out, and arithmetic does not round); stock
  counts are integers. String literals of the source are written without their
  diacritics.
\<close>

record schema =
  products_stock_quantity :: bool
  orders_notes :: bool

definition repository_schema :: schema where
  "repository_schema = \<lparr>products_stock_quantity = False, orders_notes = False\<rparr>"

text \<open>
  A product row. \<open>p_stock\<close> is the declared column \<^verbatim>\<open>stock\<close>; \<open>p_stock_quantity\<close> is
  the value of a column \<^verbatim>\<open>stock_quantity\<close>, read only where the table has one.
\<close>

record product =
  p_id :: nat
  p_name :: string
  p_price :: rat
  p_stock :: int
  p_stock_quantity :: int
  p_status :: string

record cart_row =
  c_id :: nat
  c_user_id :: nat
  c_product_id :: nat
  c_quantity :: rat
  c_created_at :: nat

text \<open>An order row; \<open>o_notes\<close> is the value of a column \<^verbatim>\<open>notes\<close>, where the table has one.\<close>

record order_row =
  o_id :: nat
  o_user_id :: nat
  o_total_amount :: rat
  o_status :: string
  o_shipping_address :: "string option"
  o_payment_method :: "string option"
  o_payment_status :: string
  o_notes :: "string option"

record order_item_row =
  oi_id :: nat
  oi_order_id :: nat
  oi_product_id :: nat
  oi_quantity :: rat
  oi_price :: rat

text \<open>
  The database: its schema, the value of \<^verbatim>\<open>CURRENT_TIMESTAMP\<close> in seconds, four tables
  and the AUTOINCREMENT counters of the three tables the models insert into
  (\<^verbatim>\<open>runQuery\<close> returns the new counter as \<^verbatim>\<open>id\<close>).
\<close>

record db =
  db_schema :: schema
  clock :: nat
  products :: "product list"
  cart :: "cart_row list"
  orders :: "order_row list"
  order_items :: "order_item_row list"
  cart_seq :: nat
  orders_seq :: nat
  order_items_seq :: nat

text \<open>
  A thrown JavaScript exception: \<^verbatim>\<open>new Error(message)\<close>, a TypeError of the runtime, or
  the error a rejected query carries.
\<close>

datatype error = Error string | TypeError string | SqliteError string

definition no_such_column :: "string \<Rightarrow> error" where
  "no_such_column c = SqliteError (''SQLITE_ERROR: no such column: '' @ c)"

definition no_column_named :: "string \<Rightarrow> string \<Rightarrow> error" where
  "no_column_named table c = SqliteError (''SQLITE_ERROR: table '' @ table @ '' has no column named '' @ c)"

definition msg_product_unavailable :: string where
  "msg_product_unavailable = ''Produto nao encontrado ou nao disponivel''"

definition msg_insufficient_stock :: string where
  "msg_insufficient_stock = ''Quantidade solicitada excede o estoque disponivel''"

definition msg_order_not_found :: string where
  "msg_order_not_found = ''Pedido nao encontrado''"

definition msg_cannot_cancel :: string where
  "msg_cannot_cancel = ''Nao e possivel cancelar este pedido''"

definition msg_invalid_status :: string where
  "msg_invalid_status = ''Status invalido''"

text \<open>The error kinds of the specification, as the exceptions the models throw.\<close>

definition Unavailable :: error where
  "Unavailable = Error msg_product_unavailable"

definition InsufficientStock :: error where
  "InsufficientStock = Error msg_insufficient_stock"

definition OrderNotFound :: error where
  "OrderNotFound = Error msg_order_not_found"

definition InvalidTransition :: error where
  "InvalidTransition = Error msg_cannot_cancel"

definition InvalidStatus :: error where
  "InvalidStatus = Error msg_invalid_status"

subsection \<open>Decimal rendering of numbers in template strings\<close>

definition digit_char :: "nat \<Rightarrow> char" where
  "digit_char d = ''0123456789'' ! (d mod 10)"

function show_nat :: "nat \<Rightarrow> string" where
  "show_nat n = (if n < 10 then [digit_char n] else show_nat (n div 10) @ [digit_char (n mod 10)])"
  by pat_completeness auto
termination
  by (relation "measure (\<lambda>n. n)") auto

definition show_int :: "int \<Rightarrow> string" where
  "show_int i = (if i < 0 then CHR ''-'' # show_nat (nat (- i)) else show_nat (nat i))"

text \<open>\<open>str_includes msg sub\<close>: the text \<open>sub\<close> occurs in \<open>msg\<close> (JavaScript's \<^verbatim>\<open>msg.includes(sub)\<close>).\<close>

definition str_includes :: "string \<Rightarrow> string \<Rightarrow> bool" where
  "str_includes msg sub = list_ex (\<lambda>i. take (length sub) (drop i msg) = sub) [0..<Suc (length msg)]"

section \<open>Cart Engine (api/models/Cart.js)\<close>

text \<open>
  \<^verbatim>\<open>SELECT * FROM products WHERE id = ? AND status = "available"\<close> through
  \<^verbatim>\<open>getRow\<close>: the first matching row, or nothing. The statement names declared
  columns only.
\<close>

definition available_product :: "nat \<Rightarrow> db \<Rightarrow> product option" where
  "available_product productId s =
     find (\<lambda>p. p_id p = productId \<and> p_status p = ''available'') (products s)"

text \<open>
  \<^verbatim>\<open>SELECT stock_quantity FROM products WHERE id = ? AND status = "available"\<close>: refused
  where the table has no such column.
\<close>

definition select_stock_quantity :: "nat \<Rightarrow> db \<Rightarrow> error + product option" where
  "select_stock_quantity productId s =
     (if products_stock_quantity (db_schema s) then Inr (available_product productId s)
      else Inl (no_such_column ''stock_quantity''))"

text \<open>
  The property \<^verbatim>\<open>stock_quantity\<close> of a row of \<^verbatim>\<open>SELECT * FROM products\<close>:
  \<^verbatim>\<open>undefined\<close> (\<open>None\<close>) where the table has no such column. A comparison with
  \<^verbatim>\<open>undefined\<close> is false.
\<close>

definition stock_quantity_of :: "db \<Rightarrow> product \<Rightarrow> int option" where
  "stock_quantity_of s p =
     (if products_stock_quantity (db_schema s) then Some (p_stock_quantity p) else None)"

definition exceeds :: "rat \<Rightarrow> int option \<Rightarrow> bool" where
  "exceeds quantity stock = (case stock of None \<Rightarrow> False | Some n \<Rightarrow> quantity > of_int n)"

text \<open>The product a cart row is LEFT JOINed with (\<^verbatim>\<open>c.product_id = p.id\<close>).\<close>

definition product_by_id :: "nat \<Rightarrow> db \<Rightarrow> product option" where
  "product_by_id productId s = find (\<lambda>p. p_id p = productId) (products s)"

text \<open>
  A cart item as \<^verbatim>\<open>Cart.getItem\<close> returns it: the cart row and the joined product
  columns, which are NULL when the product row is missing.
\<close>

record cart_item =
  ci_id :: nat
  ci_user_id :: nat
  ci_product_id :: nat
  ci_quantity :: rat
  ci_product_name :: "string option"
  ci_price :: "rat option"
  ci_stock_quantity :: "int option"
  ci_product_status :: "string option"

definition join_item :: "cart_row \<Rightarrow> product option \<Rightarrow> cart_item" where
  "join_item c p =
     \<lparr>ci_id = c_id c, ci_user_id = c_user_id c, ci_product_id = c_product_id c,
      ci_quantity = c_quantity c,
      ci_product_name = map_option p_name p, ci_price = map_option p_price p,
      ci_stock_quantity = map_option p_stock_quantity p,
      ci_product_status = map_option p_status p\<rparr>"

definition is_line :: "nat \<Rightarrow> nat \<Rightarrow> cart_row \<Rightarrow> bool" where
  "is_line userId productId c = (c_user_id c = userId \<and> c_product_id c = productId)"

text \<open>\<^verbatim>\<open>Cart.getItem\<close>: its query selects \<^verbatim>\<open>p.stock_quantity\<close>.\<close>

definition getItem :: "nat \<Rightarrow> nat \<Rightarrow> db \<Rightarrow> error + cart_item option" where
  "getItem userId productId s =
     (if \<not> products_stock_quantity (db_schema s) then Inl (no_such_column ''p.stock_quantity'')
      else
        (case find (is_line userId productId) (cart s) of
           None \<Rightarrow> Inr None
         | Some c \<Rightarrow> Inr (Some (join_item c (product_by_id productId s)))))"

text \<open>\<^verbatim>\<open>DELETE FROM cart WHERE user_id = ? AND product_id = ?\<close>; returns \<^verbatim>\<open>changes > 0\<close>.\<close>

definition removeItem :: "nat \<Rightarrow> nat \<Rightarrow> db \<Rightarrow> bool \<times> db" where
  "removeItem userId productId s =
     (let kept = filter (\<lambda>c. \<not> is_line userId productId c) (cart s);
          changes = length (cart s) - length kept
      in (0 < changes, s\<lparr>cart := kept\<rparr>))"

text \<open>\<^verbatim>\<open>DELETE FROM cart WHERE user_id = ?\<close>; returns the number of deleted rows.\<close>

definition clearCart :: "nat \<Rightarrow> db \<Rightarrow> nat \<times> db" where
  "clearCart userId s =
     (let kept = filter (\<lambda>c. c_user_id c \<noteq> userId) (cart s)
      in (length (cart s) - length kept, s\<lparr>cart := kept\<rparr>))"

text \<open>
  What a cart mutation returns: \<^verbatim>\<open>removeItem\<close>'s boolean, or the item re-read by
  \<^verbatim>\<open>getItem\<close> (\<open>None\<close> is JavaScript's \<^verbatim>\<open>null\<close>).
\<close>

datatype cart_result = Removed bool | Item "cart_item option"

definition set_quantity :: "nat \<Rightarrow> nat \<Rightarrow> rat \<Rightarrow> cart_row \<Rightarrow> cart_row" where
  "set_quantity userId productId quantity c =
     (if is_line userId productId c then c\<lparr>c_quantity := quantity\<rparr> else c)"

text \<open>
  \<^verbatim>\<open>Cart.updateQuantity\<close>. A failure of the final \<^verbatim>\<open>getItem\<close> comes after the
  UPDATE and leaves it in place.
\<close>

definition updateQuantity :: "nat \<Rightarrow> nat \<Rightarrow> rat \<Rightarrow> db \<Rightarrow> (error + cart_result) \<times> db" where
  "updateQuantity userId productId quantity s =
     (if quantity \<le> 0 then
        (case removeItem userId productId s of (b, s') \<Rightarrow> (Inr (Removed b), s'))
      else
        (case select_stock_quantity productId s of
           Inl e \<Rightarrow> (Inl e, s)
         | Inr None \<Rightarrow> (Inl Unavailable, s)
         | Inr (Some product) \<Rightarrow>
             if quantity > of_int (p_stock_quantity product) then (Inl InsufficientStock, s)
             else
               (let s' = s\<lparr>cart := map (set_quantity userId productId quantity) (cart s)\<rparr>
                in (case getItem userId productId s' of
                      Inl e \<Rightarrow> (Inl e, s')
                    | Inr item \<Rightarrow> (Inr (Item item), s')))))"

text \<open>\<^verbatim>\<open>INSERT INTO cart (user_id, product_id, quantity) VALUES (?, ?, ?)\<close>; the column
  \<^verbatim>\<open>created_at\<close> takes its default \<^verbatim>\<open>CURRENT_TIMESTAMP\<close>.\<close>

definition insert_cart :: "nat \<Rightarrow> nat \<Rightarrow> rat \<Rightarrow> db \<Rightarrow> db" where
  "insert_cart userId productId quantity s =
     s\<lparr>cart := cart s @ [\<lparr>c_id = Suc (cart_seq s), c_user_id = userId,
                           c_product_id = productId, c_quantity = quantity,
                           c_created_at = clock s\<rparr>],
       cart_seq := Suc (cart_seq s)\<rparr>"

definition addItem :: "nat \<Rightarrow> nat \<Rightarrow> rat \<Rightarrow> db \<Rightarrow> (error + cart_result) \<times> db" where
  "addItem userId productId quantity s =
     (case available_product productId s of
        None \<Rightarrow> (Inl Unavailable, s)
      | Some product \<Rightarrow>
          (case getItem userId productId s of
             Inl e \<Rightarrow> (Inl e, s)
           | Inr (Some existingItem) \<Rightarrow>
               (let newQuantity = ci_quantity existingItem + quantity
                in if exceeds newQuantity (stock_quantity_of s product)
                   then (Inl InsufficientStock, s)
                   else updateQuantity userId productId newQuantity s)
           | Inr None \<Rightarrow>
               if exceeds quantity (stock_quantity_of s product) then (Inl InsufficientStock, s)
               else
                 (let s' = insert_cart userId productId quantity s
                  in (case getItem userId productId s' of
                        Inl e \<Rightarrow> (Inl e, s')
                      | Inr item \<Rightarrow> (Inr (Item item), s')))))"

text \<open>
  A line of the cart view of \<^verbatim>\<open>Cart.getByUser\<close>. The query keeps a row only when
  \<^verbatim>\<open>p.status = 'available'\<close>, so the joined product columns are never NULL here.
\<close>

record view_item =
  vi_id :: nat
  vi_user_id :: nat
  vi_product_id :: nat
  vi_quantity :: rat
  vi_product_name :: string
  vi_price :: rat
  vi_stock_quantity :: int
  vi_product_status :: string
  vi_item_total :: rat

record cart_summary =
  sm_item_count :: rat
  sm_subtotal :: rat
  sm_total :: rat

record cart_view =
  cv_items :: "view_item list"
  cv_summary :: cart_summary

text \<open>
  The rows of \<^verbatim>\<open>cart c LEFT JOIN products p ON c.product_id = p.id WHERE
  p.status = 'available'\<close>, in the order of the cart rows given.
\<close>

fun join_available :: "db \<Rightarrow> cart_row list \<Rightarrow> (cart_row \<times> product) list" where
  "join_available s [] = []"
| "join_available s (c # cs) =
     (case product_by_id (c_product_id c) s of
        None \<Rightarrow> join_available s cs
      | Some p \<Rightarrow>
          if p_status p = ''available'' then (c, p) # join_available s cs
          else join_available s cs)"

definition make_view_item :: "cart_row \<times> product \<Rightarrow> view_item" where
  "make_view_item row =
     (case row of (c, p) \<Rightarrow>
        \<lparr>vi_id = c_id c, vi_user_id = c_user_id c, vi_product_id = c_product_id c,
         vi_quantity = c_quantity c, vi_product_name = p_name p, vi_price = p_price p,
         vi_stock_quantity = p_stock_quantity p, vi_product_status = p_status p,
         vi_item_total = p_price p * c_quantity c\<rparr>)"

text \<open>
  \<^verbatim>\<open>Cart.getByUser\<close>: its query selects \<^verbatim>\<open>p.stock_quantity\<close>.
  \<^verbatim>\<open>ORDER BY c.created_at DESC\<close> is a sort on the timestamp, latest first; rows of the
  same second, whose order SQL leaves open, stay in table order. The two
  \<^verbatim>\<open>reduce\<close> calls are left folds from 0.
\<close>

definition getByUser :: "nat \<Rightarrow> db \<Rightarrow> error + cart_view" where
  "getByUser userId s =
     (if \<not> products_stock_quantity (db_schema s) then Inl (no_such_column ''p.stock_quantity'')
      else
        (let rows = sort_key (\<lambda>row. - int (c_created_at (fst row)))
                      (join_available s (filter (\<lambda>c. c_user_id c = userId) (cart s)));
             cartItems = map make_view_item rows;
             sub = foldl (\<lambda>sum item. sum + vi_item_total item) 0 cartItems;
             itemCount = foldl (\<lambda>sum item. sum + vi_quantity item) 0 cartItems
         in Inr \<lparr>cv_items = cartItems,
                 cv_summary = \<lparr>sm_item_count = itemCount, sm_subtotal = sub, sm_total = sub\<rparr>\<rparr>))"

text \<open>\<^verbatim>\<open>SELECT COALESCE(SUM(quantity), 0)\<close> and \<^verbatim>\<open>SELECT COALESCE(SUM(p.price * c.quantity), 0)\<close>
  over the same join; both statements name declared columns only.\<close>

definition getItemCount :: "nat \<Rightarrow> db \<Rightarrow> rat" where
  "getItemCount userId s =
     sum_list (map (\<lambda>(c, p). c_quantity c)
       (join_available s (filter (\<lambda>c. c_user_id c = userId) (cart s))))"

definition getCartTotal :: "nat \<Rightarrow> db \<Rightarrow> rat" where
  "getCartTotal userId s =
     sum_list (map (\<lambda>(c, p). p_price p * c_quantity c)
       (join_available s (filter (\<lambda>c. c_user_id c = userId) (cart s))))"

subsection \<open>Cart validation\<close>

definition dquote :: string where
  "dquote = [CHR 0x22]"

definition msg_cart_empty :: string where
  "msg_cart_empty = ''Carrinho esta vazio''"

definition msg_unavailable :: "view_item \<Rightarrow> string" where
  "msg_unavailable item =
     ''Produto '' @ dquote @ vi_product_name item @ dquote @ '' nao esta mais disponivel''"

definition msg_exceeds_stock :: "view_item \<Rightarrow> string" where
  "msg_exceeds_stock item =
     ''Quantidade solicitada para '' @ dquote @ vi_product_name item @ dquote
       @ '' excede o estoque ('' @ show_int (vi_stock_quantity item) @ '' disponivel)''"

text \<open>The loop over \<^verbatim>\<open>cart.items\<close>: the messages pushed for one item, then for the rest.\<close>

fun check_items :: "view_item list \<Rightarrow> string list" where
  "check_items [] = []"
| "check_items (item # rest) =
     (if vi_product_status item \<noteq> ''available'' then [msg_unavailable item] else [])
     @ (if vi_quantity item > of_int (vi_stock_quantity item) then [msg_exceeds_stock item] else [])
     @ check_items rest"

text \<open>
  The result of \<^verbatim>\<open>Cart.validateCart\<close>: \<^verbatim>\<open>{ valid, errors }\<close> on an empty view,
  \<^verbatim>\<open>{ valid, errors, cart }\<close> otherwise.
\<close>

record validation =
  v_valid :: bool
  v_errors :: "string list"
  v_cart :: "cart_view option"

definition validateCart :: "nat \<Rightarrow> db \<Rightarrow> error + validation" where
  "validateCart userId s =
     (case getByUser userId s of
        Inl e \<Rightarrow> Inl e
      | Inr view \<Rightarrow>
          if length (cv_items view) = 0
          then Inr \<lparr>v_valid = False, v_errors = [msg_cart_empty], v_cart = None\<rparr>
          else
            (let errs = check_items (cv_items view)
             in Inr \<lparr>v_valid = (length errs = 0), v_errors = errs, v_cart = Some view\<rparr>))"

section \<open>Catalog Store (api/models/Product.js)\<close>

text \<open>\<^verbatim>\<open>Product.updateStock\<close>: \<^verbatim>\<open>UPDATE products SET stock = ? WHERE id = ?\<close>; returns
  \<^verbatim>\<open>changes > 0\<close>. It writes the declared column.\<close>

definition Product_updateStock :: "nat \<Rightarrow> int \<Rightarrow> db \<Rightarrow> bool \<times> db" where
  "Product_updateStock productId quantity s =
     (0 < length (filter (\<lambda>p. p_id p = productId) (products s)),
      s\<lparr>products := map (\<lambda>p. if p_id p = productId then p\<lparr>p_stock := quantity\<rparr> else p)
                       (products s)\<rparr>)"

section \<open>Order Engine (api/models/Order.js)\<close>

text \<open>An order as \<^verbatim>\<open>Order.findById\<close> returns it: the row and its order items. Its
  queries name declared columns only.\<close>

record order_view =
  ov_order :: order_row
  ov_items :: "order_item_row list"

definition findById :: "nat \<Rightarrow> db \<Rightarrow> order_view option" where
  "findById orderId s =
     (case find (\<lambda>row. o_id row = orderId) (orders s) of
        None \<Rightarrow> None
      | Some row \<Rightarrow>
          Some \<lparr>ov_order = row,
                ov_items = filter (\<lambda>i. oi_order_id i = orderId) (order_items s)\<rparr>)"

text \<open>
  The argument of \<^verbatim>\<open>Order.create\<close>, with the five properties the function destructures.
  A property the caller's object does not have is \<^verbatim>\<open>undefined\<close>: \<open>None\<close> here. Iterating
  over an undefined \<^verbatim>\<open>items\<close> throws a TypeError.
\<close>

record order_line =
  ol_product_id :: nat
  ol_quantity :: rat
  ol_price :: rat

record order_data =
  od_user_id :: nat
  od_items :: "order_line list option"
  od_shipping_address :: "string option"
  od_payment_method :: "string option"
  od_notes :: "string option"

definition msg_not_iterable :: string where
  "msg_not_iterable = ''items is not iterable''"

text \<open>\<^verbatim>\<open>INSERT INTO order_items (order_id, product_id, quantity, price)\<close>.\<close>

definition insert_order_item :: "nat \<Rightarrow> db \<Rightarrow> order_line \<Rightarrow> db" where
  "insert_order_item orderId s item =
     s\<lparr>order_items := order_items s @
         [\<lparr>oi_id = Suc (order_items_seq s), oi_order_id = orderId,
           oi_product_id = ol_product_id item, oi_quantity = ol_quantity item,
           oi_price = ol_price item\<rparr>],
       order_items_seq := Suc (order_items_seq s)\<rparr>"

text \<open>
  \<^verbatim>\<open>INSERT INTO orders (user_id, total_amount, shipping_address, payment_method, notes)\<close>,
  on a table that has the column \<^verbatim>\<open>notes\<close>: status and payment status take the column
  default \<^verbatim>\<open>'pending'\<close>.
\<close>

definition insert_order :: "order_data \<Rightarrow> rat \<Rightarrow> db \<Rightarrow> db" where
  "insert_order d total_amount s =
     s\<lparr>orders := orders s @
         [\<lparr>o_id = Suc (orders_seq s), o_user_id = od_user_id d,
           o_total_amount = total_amount, o_status = ''pending'',
           o_shipping_address = od_shipping_address d,
           o_payment_method = od_payment_method d,
           o_payment_status = ''pending'', o_notes = od_notes d\<rparr>],
       orders_seq := Suc (orders_seq s)\<rparr>"

text \<open>
  \<^verbatim>\<open>Order.create\<close>: the total is computed first, then the INSERT into orders, which
  names the column \<^verbatim>\<open>notes\<close> and is refused where the table has none.
\<close>

definition Order_create :: "order_data \<Rightarrow> db \<Rightarrow> (error + order_view option) \<times> db" where
  "Order_create d s =
     (case od_items d of
        None \<Rightarrow> (Inl (TypeError msg_not_iterable), s)
      | Some items \<Rightarrow>
          (let total_amount = foldl (\<lambda>t item. t + ol_price item * ol_quantity item) 0 items
           in if \<not> orders_notes (db_schema s) then (Inl (no_column_named ''orders'' ''notes''), s)
              else
                (let s1 = insert_order d total_amount s;
                     orderId = orders_seq s1;
                     s2 = foldl (insert_order_item orderId) s1 items
                 in (Inr (findById orderId s2), s2))))"

definition validStatuses :: "string list" where
  "validStatuses = [''pending'', ''confirmed'', ''processing'', ''shipped'', ''delivered'', ''cancelled'']"

text \<open>A truthy \<^verbatim>\<open>notes\<close> argument: neither \<^verbatim>\<open>null\<close> nor the empty string.\<close>

definition truthy_notes :: "string option \<Rightarrow> bool" where
  "truthy_notes notes = (case notes of None \<Rightarrow> False | Some n \<Rightarrow> n \<noteq> [])"

definition set_status :: "nat \<Rightarrow> string \<Rightarrow> string option \<Rightarrow> order_row \<Rightarrow> order_row" where
  "set_status orderId status notes row =
     (if o_id row = orderId then
        (if truthy_notes notes then row\<lparr>o_status := status, o_notes := notes\<rparr>
         else row\<lparr>o_status := status\<rparr>)
      else row)"

text \<open>
  \<^verbatim>\<open>Order.updateStatus\<close>: \<^verbatim>\<open>UPDATE orders SET status = ? [, notes = ?] WHERE id = ?\<close>.
  The statement names the column \<^verbatim>\<open>notes\<close> only when the argument is truthy, and is
  then refused where the table has no such column.
\<close>

definition updateStatus :: "nat \<Rightarrow> string \<Rightarrow> string option \<Rightarrow> db \<Rightarrow> (error + order_view option) \<times> db" where
  "updateStatus orderId status notes s =
     (if status \<notin> set validStatuses then (Inl InvalidStatus, s)
      else if truthy_notes notes \<and> \<not> orders_notes (db_schema s)
      then (Inl (no_such_column ''notes''), s)
      else
        (let s' = s\<lparr>orders := map (set_status orderId status notes) (orders s)\<rparr>
         in (Inr (findById orderId s'), s')))"

text \<open>The notes of a cancellation: \<^verbatim>\<open>reason ? `Cancelado: ${reason}` : 'Pedido cancelado'\<close>.\<close>

definition cancel_notes :: "string option \<Rightarrow> string" where
  "cancel_notes reason =
     (case reason of
        None \<Rightarrow> ''Pedido cancelado''
      | Some r \<Rightarrow> if r = [] then ''Pedido cancelado'' else ''Cancelado: '' @ r)"

definition Order_cancel :: "nat \<Rightarrow> string option \<Rightarrow> db \<Rightarrow> (error + order_view option) \<times> db" where
  "Order_cancel orderId reason s =
     (case findById orderId s of
        None \<Rightarrow> (Inl OrderNotFound, s)
      | Some order \<Rightarrow>
          if o_status (ov_order order) = ''delivered'' \<or> o_status (ov_order order) = ''cancelled''
          then (Inl InvalidTransition, s)
          else updateStatus orderId ''cancelled'' (Some (cancel_notes reason)) s)"

section \<open>JavaScript values read dynamically by the controllers\<close>

text \<open>
  The controllers read properties by name from the objects the models return. A
  property an object does not have reads as \<^verbatim>\<open>undefined\<close>; only an array has a
  \<^verbatim>\<open>length\<close>.
\<close>

datatype jsval =
    JUndefined
  | JNull
  | JBool bool
  | JNum rat
  | JStr string
  | JArr "jsval list"
  | JObj "(string \<times> jsval) list"

fun truthy :: "jsval \<Rightarrow> bool" where
  "truthy JUndefined = False"
| "truthy JNull = False"
| "truthy (JBool b) = b"
| "truthy (JNum n) = (n \<noteq> 0)"
| "truthy (JStr s) = (s \<noteq> [])"
| "truthy (JArr xs) = True"
| "truthy (JObj kvs) = True"

fun get_prop :: "jsval \<Rightarrow> string \<Rightarrow> jsval" where
  "get_prop (JObj kvs) k = (case map_of kvs k of None \<Rightarrow> JUndefined | Some v \<Rightarrow> v)"
| "get_prop (JArr xs) k = (if k = ''length'' then JNum (of_nat (length xs)) else JUndefined)"
| "get_prop v k = JUndefined"

definition view_item_js :: "view_item \<Rightarrow> jsval" where
  "view_item_js item =
     JObj [(''id'', JNum (of_nat (vi_id item))),
           (''user_id'', JNum (of_nat (vi_user_id item))),
           (''product_id'', JNum (of_nat (vi_product_id item))),
           (''quantity'', JNum (vi_quantity item)),
           (''product_name'', JStr (vi_product_name item)),
           (''price'', JNum (vi_price item)),
           (''stock_quantity'', JNum (of_int (vi_stock_quantity item))),
           (''product_status'', JStr (vi_product_status item)),
           (''item_total'', JNum (vi_item_total item))]"

text \<open>The object literal \<^verbatim>\<open>{ items, summary: { item_count, subtotal, total } }\<close> of
  \<^verbatim>\<open>Cart.getByUser\<close>.\<close>

definition cart_view_js :: "cart_view \<Rightarrow> jsval" where
  "cart_view_js v =
     JObj [(''items'', JArr (map view_item_js (cv_items v))),
           (''summary'',
            JObj [(''item_count'', JNum (sm_item_count (cv_summary v))),
                  (''subtotal'', JNum (sm_subtotal (cv_summary v))),
                  (''total'', JNum (sm_total (cv_summary v)))])]"

text \<open>The object literals \<^verbatim>\<open>{ valid, errors }\<close> and \<^verbatim>\<open>{ valid, errors, cart }\<close> of
  \<^verbatim>\<open>Cart.validateCart\<close>.\<close>

definition validation_js :: "validation \<Rightarrow> jsval" where
  "validation_js v =
     JObj ([(''valid'', JBool (v_valid v)), (''errors'', JArr (map JStr (v_errors v)))]
           @ (case v_cart v of None \<Rightarrow> [] | Some c \<Rightarrow> [(''cart'', cart_view_js c)]))"

text \<open>
  The static methods of class \<^verbatim>\<open>Cart\<close> that take a user id alone, by name. The class
  has ten more static methods with other parameters (\<^verbatim>\<open>addItem\<close>, \<^verbatim>\<open>getItem\<close>,
  \<^verbatim>\<open>updateQuantity\<close>, \<^verbatim>\<open>removeItem\<close>, \<^verbatim>\<open>moveToOrder\<close>, \<^verbatim>\<open>isInCart\<close>,
  \<^verbatim>\<open>getStats\<close>, \<^verbatim>\<open>cleanupOldItems\<close>, \<^verbatim>\<open>getPopularItems\<close>, \<^verbatim>\<open>getAllCarts\<close>)
  and no other member. Calling a member the class does not have throws a TypeError.
\<close>

definition Cart_statics :: "(string \<times> (nat \<Rightarrow> db \<Rightarrow> (error + jsval) \<times> db)) list" where
  "Cart_statics =
     [(''getByUser'', \<lambda>userId s. (map_sum id cart_view_js (getByUser userId s), s)),
      (''clearCart'', \<lambda>userId s. case clearCart userId s of (n, s') \<Rightarrow> (Inr (JNum (of_nat n)), s')),
      (''getItemCount'', \<lambda>userId s. (Inr (JNum (getItemCount userId s)), s)),
      (''getCartTotal'', \<lambda>userId s. (Inr (JNum (getCartTotal userId s)), s)),
      (''validateCart'', \<lambda>userId s. (map_sum id validation_js (validateCart userId s), s))]"

definition Cart_call :: "string \<Rightarrow> nat \<Rightarrow> db \<Rightarrow> (error + jsval) \<times> db" where
  "Cart_call name userId s =
     (case map_of Cart_statics name of
        None \<Rightarrow> (Inl (TypeError (''Cart.'' @ name @ '' is not a function'')), s)
      | Some f \<Rightarrow> f userId s)"

section \<open>Checkout Coordinator (api/controllers/OrderController.js)\<close>

text \<open>The JSON body \<^verbatim>\<open>{ success, message, details, data, error }\<close> and the HTTP status.\<close>

record response =
  r_status :: nat
  r_success :: bool
  r_message :: string
  r_details :: jsval
  r_data :: "order_view option"
  r_error :: "string option"

definition reply :: "nat \<Rightarrow> bool \<Rightarrow> string \<Rightarrow> response" where
  "reply code ok message =
     \<lparr>r_status = code, r_success = ok, r_message = message, r_details = JUndefined,
      r_data = None, r_error = None\<rparr>"

fun error_message :: "error \<Rightarrow> string" where
  "error_message (Error m) = m"
| "error_message (TypeError m) = m"
| "error_message (SqliteError m) = m"

text \<open>The \<^verbatim>\<open>catch\<close> block of every handler.\<close>

definition server_error :: "error \<Rightarrow> response" where
  "server_error e = (reply 500 False ''Erro interno do servidor'')\<lparr>r_error := Some (error_message e)\<rparr>"

text \<open>The failures \<open>EmptyCart\<close> and \<open>CartInvalid\<close> of the specification, as responses.\<close>

definition EmptyCart :: response where
  "EmptyCart = reply 400 False ''Carrinho esta vazio''"

definition CartInvalid :: "jsval \<Rightarrow> response" where
  "CartInvalid details = (reply 400 False ''Carrinho invalido'')\<lparr>r_details := details\<rparr>"

text \<open>
  The request of \<^verbatim>\<open>POST /orders\<close>: the authenticated user, the errors
  \<^verbatim>\<open>validationResult(req)\<close> holds, and the body.
\<close>

record order_request =
  rq_user_id :: nat
  rq_validation_errors :: "string list"
  rq_shipping_address :: "string option"
  rq_payment_method :: "string option"
  rq_notes :: "string option"

text \<open>
  \<^verbatim>\<open>OrderController.create\<close>; every exception of a model is caught and answered 500.
  The object \<^verbatim>\<open>orderData\<close> it passes to \<^verbatim>\<open>Order.create\<close> has the properties
  \<^verbatim>\<open>user_id\<close>, \<^verbatim>\<open>total_amount\<close>, \<^verbatim>\<open>status\<close>, \<^verbatim>\<open>payment_status\<close>,
  \<^verbatim>\<open>payment_method\<close>, \<^verbatim>\<open>shipping_address\<close> and \<^verbatim>\<open>notes\<close>, and no property
  \<^verbatim>\<open>items\<close>; the second argument of the call is not a parameter of
  \<^verbatim>\<open>Order.create\<close>.
\<close>

definition create :: "order_request \<Rightarrow> db \<Rightarrow> response \<times> db" where
  "create req s =
     (if rq_validation_errors req \<noteq> [] then (reply 400 False ''Dados invalidos'', s)
      else
        (let userId = rq_user_id req
         in case getByUser userId s of
              Inl e \<Rightarrow> (server_error e, s)
            | Inr view \<Rightarrow>
                (let cartItems = cart_view_js view
                 in if \<not> truthy cartItems \<or> get_prop cartItems ''length'' = JNum 0
                    then (EmptyCart, s)
                    else
                      (case validateCart userId s of
                         Inl e \<Rightarrow> (server_error e, s)
                       | Inr v \<Rightarrow>
                           (let validation = validation_js v
                            in if \<not> truthy (get_prop validation ''valid'')
                               then (CartInvalid (get_prop validation ''issues''), s)
                               else
                                 (case Cart_call ''getTotal'' userId s of
                                    (Inl e, s1) \<Rightarrow> (server_error e, s1)
                                  | (Inr cartTotal, s1) \<Rightarrow>
                                      (case Order_create
                                              \<lparr>od_user_id = userId, od_items = None,
                                               od_shipping_address = rq_shipping_address req,
                                               od_payment_method = rq_payment_method req,
                                               od_notes = rq_notes req\<rparr> s1 of
                                         (Inl e, s2) \<Rightarrow> (server_error e, s2)
                                       | (Inr order, s2) \<Rightarrow>
                                           (case Cart_call ''clear'' userId s2 of
                                              (Inl e, s3) \<Rightarrow> (server_error e, s3)
                                            | (Inr cleared, s3) \<Rightarrow>
                                                ((reply 201 True ''Pedido criado com sucesso'')
                                                   \<lparr>r_data := order\<rparr>, s3)))))))))"

text \<open>The request of \<^verbatim>\<open>PATCH /orders/:id/cancel\<close>.\<close>

record cancel_request =
  cq_id :: nat
  cq_user_id :: nat
  cq_is_admin :: bool
  cq_reason :: "string option"

definition OrderController_cancel :: "cancel_request \<Rightarrow> db \<Rightarrow> response \<times> db" where
  "OrderController_cancel req s =
     (case findById (cq_id req) s of
        None \<Rightarrow> (reply 404 False ''Pedido nao encontrado'', s)
      | Some order \<Rightarrow>
          if \<not> cq_is_admin req \<and> o_user_id (ov_order order) \<noteq> cq_user_id req
          then (reply 403 False ''Acesso negado'', s)
          else if o_status (ov_order order) \<in> set [''shipped'', ''delivered'', ''cancelled'']
          then (reply 400 False ''Pedido nao pode ser cancelado neste status'', s)
          else
            (case Order_cancel (cq_id req) (cq_reason req) s of
               (Inl e, s') \<Rightarrow> (server_error e, s')
             | (Inr cancelledOrder, s') \<Rightarrow>
                 ((reply 200 True ''Pedido cancelado com sucesso'')\<lparr>r_data := cancelledOrder\<rparr>, s')))"

section \<open>Invariant and example data\<close>

text \<open>The invariant of the cart table in the specification: every stored line has a
  quantity of at least 1.\<close>

definition cart_inv :: "db \<Rightarrow> bool" where
  "cart_inv s = (\<forall>c \<in> set (cart s). 1 \<le> c_quantity c)"

text \<open>
  A catalog of three products: A (price 10.00, stock 5) and B (price 5.50, stock 3) are
  available, C is sold. User 7 is the customer of the examples. The example databases
  have the schema of the repository; \<open>with_columns\<close> gives the same tables a
  \<^verbatim>\<open>stock_quantity\<close> and a \<^verbatim>\<open>notes\<close> column.
\<close>

definition ex_pA :: product where
  "ex_pA = \<lparr>p_id = 1, p_name = ''A'', p_price = 10, p_stock = 5, p_stock_quantity = 5,
            p_status = ''available''\<rparr>"

definition ex_pB :: product where
  "ex_pB = \<lparr>p_id = 2, p_name = ''B'', p_price = 11 / 2, p_stock = 3, p_stock_quantity = 3,
            p_status = ''available''\<rparr>"

definition ex_pC :: product where
  "ex_pC = \<lparr>p_id = 3, p_name = ''C'', p_price = 7, p_stock = 3, p_stock_quantity = 3,
            p_status = ''sold''\<rparr>"

definition ex_db :: db where
  "ex_db = \<lparr>db_schema = repository_schema, clock = 1000,
            products = [ex_pA, ex_pB, ex_pC], cart = [], orders = [], order_items = [],
            cart_seq = 0, orders_seq = 0, order_items_seq = 0\<rparr>"

definition with_columns :: "db \<Rightarrow> db" where
  "with_columns s = s\<lparr>db_schema := \<lparr>products_stock_quantity = True, orders_notes = True\<rparr>\<rparr>"

definition ex_line :: "nat \<Rightarrow> nat \<Rightarrow> rat \<Rightarrow> cart_row" where
  "ex_line n productId quantity =
     \<lparr>c_id = n, c_user_id = 7, c_product_id = productId, c_quantity = quantity,
      c_created_at = 900 + n\<rparr>"

text \<open>The valid cart of the specification's example: A with quantity 2, B with quantity 1.\<close>

definition ex_two_lines :: db where
  "ex_two_lines = ex_db\<lparr>cart := [ex_line 1 1 2, ex_line 2 2 1], cart_seq := 2\<rparr>"

text \<open>A cart whose only line asks for 9 of B, of which 3 are in stock.\<close>

definition ex_over_stock :: db where
  "ex_over_stock = ex_db\<lparr>cart := [ex_line 1 2 9], cart_seq := 1\<rparr>"

text \<open>A cart with one line of A and one line of C, which is no longer available.\<close>

definition ex_unavailable_line :: db where
  "ex_unavailable_line = ex_db\<lparr>cart := [ex_line 1 1 1, ex_line 2 3 1], cart_seq := 2\<rparr>"

definition ex_request :: order_request where
  "ex_request =
     \<lparr>rq_user_id = 7, rq_validation_errors = [],
      rq_shipping_address = Some ''Rua das Flores 100, Sao Paulo'',
      rq_payment_method = Some ''pix'', rq_notes = None\<rparr>"

text \<open>The frozen lines of the example cart, as \<^verbatim>\<open>Order.create\<close> expects them.\<close>

definition ex_order_data :: order_data where
  "ex_order_data =
     \<lparr>od_user_id = 7,
      od_items = Some [\<lparr>ol_product_id = 1, ol_quantity = 2, ol_price = 10\<rparr>,
                       \<lparr>ol_product_id = 2, ol_quantity = 1, ol_price = 11 / 2\<rparr>],
      od_shipping_address = Some ''Rua das Flores 100, Sao Paulo'',
      od_payment_method = Some ''pix'', od_notes = None\<rparr>"

definition ex_order :: "nat \<Rightarrow> string \<Rightarrow> order_row" where
  "ex_order n status =
     \<lparr>o_id = n, o_user_id = 7, o_total_amount = 51 / 2, o_status = status,
      o_shipping_address = Some ''Rua das Flores 100, Sao Paulo'',
      o_payment_method = Some ''pix'', o_payment_status = ''paid'', o_notes = None\<rparr>"

text \<open>Three orders of user 7: pending, delivered and shipped.\<close>

definition ex_orders :: db where
  "ex_orders =
     ex_db\<lparr>orders := [ex_order 1 ''pending'', ex_order 2 ''delivered'', ex_order 3 ''shipped''],
           orders_seq := 3\<rparr>"

section \<open>Frame lemmas: what the operations leave unchanged\<close>

lemma map_set_quantity_id:
  "find (is_line u p) cs = None \<Longrightarrow> map (set_quantity u p q) cs = cs"
  by (induction cs) (auto simp: set_quantity_def split: if_splits)

lemma removeItem_products: "products (snd (removeItem u p s)) = products s"
  by (simp add: removeItem_def Let_def)

lemma clearCart_products: "products (snd (clearCart u s)) = products s"
  by (simp add: clearCart_def Let_def)

lemma updateQuantity_products: "products (snd (updateQuantity u p q s)) = products s"
  by (simp add: updateQuantity_def removeItem_def Let_def split: option.splits sum.splits)

lemma addItem_products: "products (snd (addItem u p q s)) = products s"
  by (simp add: addItem_def insert_cart_def Let_def updateQuantity_products
      split: option.splits sum.splits)

lemma foldl_insert_order_item_frame:
  "products (foldl (insert_order_item i) s xs) = products s
   \<and> cart (foldl (insert_order_item i) s xs) = cart s
   \<and> orders (foldl (insert_order_item i) s xs) = orders s
   \<and> db_schema (foldl (insert_order_item i) s xs) = db_schema s"
  by (induction xs arbitrary: s) (simp_all add: insert_order_item_def)

lemma Order_create_products: "products (snd (Order_create d s)) = products s"
  by (simp add: Order_create_def Let_def insert_order_def foldl_insert_order_item_frame
      split: option.splits)

lemma updateStatus_products: "products (snd (updateStatus i st n s)) = products s"
  by (simp add: updateStatus_def Let_def)

lemma Order_cancel_products: "products (snd (Order_cancel i r s)) = products s"
  by (simp add: Order_cancel_def updateStatus_products split: option.splits)

section \<open>The operations on the schema of the repository\<close>

lemma getItem_repository:
  "\<not> products_stock_quantity (db_schema s) \<Longrightarrow>
     getItem u p s = Inl (no_such_column ''p.stock_quantity'')"
  by (simp add: getItem_def)

lemma getByUser_repository:
  "\<not> products_stock_quantity (db_schema s) \<Longrightarrow>
     getByUser u s = Inl (no_such_column ''p.stock_quantity'')"
  by (simp add: getByUser_def)

lemma validateCart_repository:
  "\<not> products_stock_quantity (db_schema s) \<Longrightarrow>
     validateCart u s = Inl (no_such_column ''p.stock_quantity'')"
  by (simp add: validateCart_def getByUser_repository)

lemma addItem_repository:
  "\<not> products_stock_quantity (db_schema s) \<Longrightarrow>
     addItem u p q s =
       (case available_product p s of
          None \<Rightarrow> (Inl Unavailable, s)
        | Some product \<Rightarrow> (Inl (no_such_column ''p.stock_quantity''), s))"
  by (simp add: addItem_def getItem_repository split: option.splits)

lemma updateQuantity_repository:
  "\<not> products_stock_quantity (db_schema s) \<Longrightarrow> 0 < q \<Longrightarrow>
     updateQuantity u p q s = (Inl (no_such_column ''stock_quantity''), s)"
  by (simp add: updateQuantity_def select_stock_quantity_def)

lemma Order_create_repository:
  "\<not> orders_notes (db_schema s) \<Longrightarrow> od_items d = Some xs \<Longrightarrow>
     Order_create d s = (Inl (no_column_named ''orders'' ''notes''), s)"
  by (simp add: Order_create_def Let_def)

lemma cancel_notes_nonempty: "cancel_notes reason \<noteq> []"
  by (simp add: cancel_notes_def split: option.splits)

lemma Order_cancel_repository:
  "\<not> orders_notes (db_schema s) \<Longrightarrow> findById i s = Some order0 \<Longrightarrow>
     Order_cancel i reason s =
       (if o_status (ov_order order0) = ''delivered'' \<or> o_status (ov_order order0) = ''cancelled''
        then (Inl InvalidTransition, s) else (Inl (no_such_column ''notes''), s))"
  by (simp add: Order_cancel_def updateStatus_def validStatuses_def truthy_notes_def
      cancel_notes_nonempty)

section \<open>The checkout handler, case by case\<close>

lemma Cart_call_getTotal:
  "Cart_call ''getTotal'' u s = (Inl (TypeError ''Cart.getTotal is not a function''), s)"
  by (simp add: Cart_call_def Cart_statics_def)

lemma truthy_cart_view_js: "truthy (cart_view_js v)"
  by (simp add: cart_view_js_def)

lemma length_cart_view_js: "get_prop (cart_view_js v) ''length'' = JUndefined"
  by (simp add: cart_view_js_def)

lemma valid_validation_js: "get_prop (validation_js v) ''valid'' = JBool (v_valid v)"
  by (simp add: validation_js_def)

lemma issues_validation_js: "get_prop (validation_js v) ''issues'' = JUndefined"
  by (cases "v_cart v") (simp_all add: validation_js_def)

lemma validateCart_Inl: "validateCart u s = Inl e \<longleftrightarrow> getByUser u s = Inl e"
  by (simp add: validateCart_def Let_def split: sum.splits)

lemma create_cases:
  "create req s =
     (if rq_validation_errors req \<noteq> [] then (reply 400 False ''Dados invalidos'', s)
      else
        (case validateCart (rq_user_id req) s of
           Inl e \<Rightarrow> (server_error e, s)
         | Inr v \<Rightarrow>
             if \<not> v_valid v then (CartInvalid JUndefined, s)
             else (server_error (TypeError ''Cart.getTotal is not a function''), s)))"
proof (cases "getByUser (rq_user_id req) s")
  case (Inl e)
  then have "validateCart (rq_user_id req) s = Inl e"
    by (simp add: validateCart_Inl)
  with Inl show ?thesis
    by (simp add: create_def Let_def)
next
  case (Inr view)
  then have "\<exists>v. validateCart (rq_user_id req) s = Inr v"
    by (simp add: validateCart_def Let_def)
  then obtain v where "validateCart (rq_user_id req) s = Inr v" ..
  with Inr show ?thesis
    by (simp add: create_def Let_def truthy_cart_view_js length_cart_view_js valid_validation_js
        issues_validation_js Cart_call_getTotal)
qed

lemma create_state: "snd (create req s) = s"
  by (simp add: create_cases split: sum.splits)

lemma create_never_201: "r_status (fst (create req s)) \<noteq> 201"
  by (simp add: create_cases reply_def server_error_def CartInvalid_def split: sum.splits)

lemmas ex_defs = ex_db_def ex_pA_def ex_pB_def ex_pC_def ex_line_def ex_two_lines_def
  ex_over_stock_def ex_unavailable_line_def ex_request_def ex_order_def ex_orders_def
  ex_order_data_def with_columns_def repository_schema_def

section \<open>Cart Engine properties\<close>

text \<open>
  C8. For every user and product, \<open>updateQuantity\<close> with a quantity of 0 or less returns
  what \<open>removeItem\<close> returns and leaves exactly the database that \<open>removeItem\<close> leaves.
\<close>

theorem updateQuantity_nonpositive_removes:
  "quantity \<le> 0 \<Longrightarrow>
     snd (updateQuantity u p quantity s) = snd (removeItem u p s)
     \<and> fst (updateQuantity u p quantity s) = Inr (Removed (fst (removeItem u p s)))"
  by (simp add: updateQuantity_def split: prod.splits)

theorem updateQuantity_nonpositive_removes_witness:
  "snd (updateQuantity 7 1 0 ex_two_lines) = snd (removeItem 7 1 ex_two_lines)
   \<and> cart (snd (updateQuantity 7 1 0 ex_two_lines)) = [ex_line 2 2 1]
   \<and> fst (updateQuantity 7 1 0 ex_two_lines) = Inr (Removed True)"
  using updateQuantity_nonpositive_removes [of 0 7 1 ex_two_lines]
  by (simp add: removeItem_def ex_two_lines_def ex_db_def ex_line_def is_line_def)

subsection \<open>Updating a line that does not exist\<close>

lemma getItem_with_column:
  "products_stock_quantity (db_schema s) \<Longrightarrow>
     getItem u p s = Inr (map_option (\<lambda>c. join_item c (product_by_id p s)) (find (is_line u p) (cart s)))"
  by (simp add: getItem_def split: option.splits)

lemma updateQuantity_absent_line_with_column:
  "products_stock_quantity (db_schema s) \<Longrightarrow> available_product p s = Some pr \<Longrightarrow>
   find (is_line u p) (cart s) = None \<Longrightarrow> 0 < q \<Longrightarrow> q \<le> of_int (p_stock_quantity pr) \<Longrightarrow>
     updateQuantity u p q s = (Inr (Item None), s)"
  by (simp add: updateQuantity_def select_stock_quantity_def getItem_with_column
      map_set_quantity_id Let_def)

text \<open>
  C10, at a failing input. Product B is available with a stock of 3 and user 7 has no line
  for it. \<open>updateQuantity\<close> with quantity 3 fails: its stock query names the column
  \<^verbatim>\<open>stock_quantity\<close>, which the products table does not have, and the query is
  refused. The cart is unchanged. On a table with the column the call returns
  \<^verbatim>\<open>null\<close> and leaves the database as it was
  (\<open>updateQuantity_absent_line_with_column\<close>).
\<close>

theorem updateQuantity_absent_line_throws:
  "available_product 2 ex_db = Some ex_pB
   \<and> p_stock ex_pB = 3
   \<and> filter (is_line 7 2) (cart ex_db) = []
   \<and> updateQuantity 7 2 3 ex_db = (Inl (no_such_column ''stock_quantity''), ex_db)
   \<and> updateQuantity 7 2 3 (with_columns ex_db) = (Inr (Item None), with_columns ex_db)"
proof -
  have a: "available_product 2 ex_db = Some ex_pB"
    by (simp add: available_product_def ex_db_def ex_pA_def ex_pB_def)
  have r: "updateQuantity 7 2 3 ex_db = (Inl (no_such_column ''stock_quantity''), ex_db)"
    by (rule updateQuantity_repository) (simp_all add: ex_db_def repository_schema_def)
  have w: "updateQuantity 7 2 3 (with_columns ex_db) = (Inr (Item None), with_columns ex_db)"
    by (rule updateQuantity_absent_line_with_column [where pr = ex_pB])
       (simp_all add: available_product_def with_columns_def ex_db_def ex_pA_def ex_pB_def)
  from a r w show ?thesis
    by (simp add: ex_pB_def ex_db_def)
qed

theorem updateQuantity_absent_line_throws_witness:
  "isl (fst (updateQuantity 7 2 3 ex_db)) \<and> cart (snd (updateQuantity 7 2 3 ex_db)) = []"
  using updateQuantity_absent_line_throws by (simp add: ex_db_def)

subsection \<open>The stock error carries no amount\<close>

lemma str_includes_set: "str_includes msg sub \<Longrightarrow> set sub \<subseteq> set msg"
proof -
  assume "str_includes msg sub"
  then obtain i where "take (length sub) (drop i msg) = sub"
    by (auto simp: str_includes_def list_ex_iff)
  then have "set sub = set (take (length sub) (drop i msg))" by simp
  also have "\<dots> \<subseteq> set (drop i msg)" by (rule set_take_subset)
  also have "\<dots> \<subseteq> set msg" by (rule set_drop_subset)
  finally show ?thesis .
qed

lemma digit_char_digit: "digit_char d \<in> set ''0123456789''"
proof -
  have "d mod 10 < length ''0123456789''" by simp
  then show ?thesis unfolding digit_char_def by (rule nth_mem)
qed

lemma show_nat_last: "show_nat n \<noteq> [] \<and> last (show_nat n) \<in> set ''0123456789''"
proof (cases "n < 10")
  case True
  then show ?thesis using digit_char_digit [of n] by (subst (1 2) show_nat.simps) simp
next
  case False
  then show ?thesis using digit_char_digit [of "n mod 10"] by (subst (1 2) show_nat.simps) simp
qed

lemma show_int_has_digit: "\<exists>c \<in> set (show_int i). c \<in> set ''0123456789''"
proof -
  have "\<And>n. last (show_nat n) \<in> set (show_nat n)"
    using show_nat_last by (simp add: last_in_set)
  then have "\<And>n. \<exists>c \<in> set (show_nat n). c \<in> set ''0123456789''"
    using show_nat_last by blast
  then show ?thesis by (auto simp: show_int_def)
qed

lemma insufficient_stock_no_amount: "\<not> str_includes msg_insufficient_stock (show_int n)"
proof
  assume "str_includes msg_insufficient_stock (show_int n)"
  then have sub: "set (show_int n) \<subseteq> set msg_insufficient_stock" by (rule str_includes_set)
  obtain c where "c \<in> set (show_int n)" and d: "c \<in> set ''0123456789''"
    using show_int_has_digit by blast
  with sub have "c \<in> set msg_insufficient_stock" by blast
  with d show False by (auto simp: msg_insufficient_stock_def)
qed

subsection \<open>Adding the same product twice\<close>

lemma find_append_None: "find P xs = None \<Longrightarrow> find P (xs @ ys) = find P ys"
  by (induction xs) (auto split: if_splits)

lemma filter_find_None: "find P xs = None \<Longrightarrow> filter P xs = []"
  by (induction xs) (auto split: if_splits)

lemma addItem_twice_with_column:
  assumes col: "products_stock_quantity (db_schema s)"
    and a: "available_product p s = Some pr"
    and none: "find (is_line u p) (cart s) = None"
    and q1: "0 < q1" and q2: "0 < q2"
    and fits: "q1 \<le> of_int (p_stock_quantity pr)"
  shows
    "(q1 + q2 \<le> of_int (p_stock_quantity pr) \<longrightarrow>
        \<not> isl (fst (addItem u p q2 (snd (addItem u p q1 s))))
        \<and> filter (is_line u p) (cart (snd (addItem u p q2 (snd (addItem u p q1 s)))))
            = [\<lparr>c_id = Suc (cart_seq s), c_user_id = u, c_product_id = p, c_quantity = q1 + q2,
                c_created_at = clock s\<rparr>])
     \<and> (q1 + q2 > of_int (p_stock_quantity pr) \<longrightarrow>
        addItem u p q2 (snd (addItem u p q1 s))
          = (Inl (Error ''Quantidade solicitada excede o estoque disponivel''), snd (addItem u p q1 s))
        \<and> filter (is_line u p) (cart (snd (addItem u p q1 s)))
            = [\<lparr>c_id = Suc (cart_seq s), c_user_id = u, c_product_id = p, c_quantity = q1,
                c_created_at = clock s\<rparr>])"
proof -
  let ?s1 = "insert_cart u p q1 s"
  let ?row = "\<lambda>q. \<lparr>c_id = Suc (cart_seq s), c_user_id = u, c_product_id = p, c_quantity = q,
                c_created_at = clock s\<rparr>"
  have col1: "products_stock_quantity (db_schema ?s1)"
    using col by (simp add: insert_cart_def)
  have c1: "cart ?s1 = cart s @ [?row q1]"
    by (simp add: insert_cart_def)
  have a1: "available_product p ?s1 = Some pr"
    using a by (simp add: available_product_def insert_cart_def)
  have g0: "getItem u p s = Inr None"
    using col none by (simp add: getItem_with_column)
  have f1: "find (is_line u p) (cart ?s1) = Some (?row q1)"
    by (simp add: c1 find_append_None [OF none] is_line_def)
  have g1: "getItem u p ?s1 = Inr (Some (join_item (?row q1) (product_by_id p ?s1)))"
    using col1 f1 by (simp add: getItem_with_column)
  have s1: "snd (addItem u p q1 s) = ?s1"
    using a g0 fits col g1 by (simp add: addItem_def Let_def exceeds_def stock_quantity_of_def)
  have line1: "filter (is_line u p) (cart ?s1) = [?row q1]"
    by (simp add: c1 filter_find_None [OF none] is_line_def)
  have second: "addItem u p q2 ?s1 =
     (if q1 + q2 > of_int (p_stock_quantity pr) then (Inl InsufficientStock, ?s1)
      else updateQuantity u p (q1 + q2) ?s1)"
    using a1 g1 col1
    by (simp add: addItem_def Let_def exceeds_def stock_quantity_of_def join_item_def)
  have upd: "q1 + q2 \<le> of_int (p_stock_quantity pr) \<Longrightarrow>
      \<not> isl (fst (updateQuantity u p (q1 + q2) ?s1))
      \<and> cart (snd (updateQuantity u p (q1 + q2) ?s1)) = cart s @ [?row (q1 + q2)]"
    using q1 q2 a1 col1
    by (simp add: updateQuantity_def select_stock_quantity_def getItem_def Let_def c1
        map_set_quantity_id [OF none] set_quantity_def is_line_def split: option.splits)
  show ?thesis
    using second upd line1
    by (simp add: s1 InsufficientStock_def msg_insufficient_stock_def filter_find_None [OF none]
        is_line_def)
qed

text \<open>
  C4, at a failing input. Product A is available with a stock of 5 and user 7 has no line
  for it. \<open>addItem\<close> of 2 and then of 3 stores nothing: each call fails in \<open>getItem\<close>,
  whose query names the column \<^verbatim>\<open>stock_quantity\<close> that the products table does not
  have, before any stock test or INSERT. On a table with the column the two calls leave
  one line with quantity 5, and a further quantity that would exceed the stock is
  refused with \<open>InsufficientStock\<close>, whose message is a fixed text in which the
  available amount does not occur.
\<close>

theorem addItem_never_accumulates:
  "available_product 1 ex_db = Some ex_pA
   \<and> addItem 7 1 2 ex_db = (Inl (no_such_column ''p.stock_quantity''), ex_db)
   \<and> addItem 7 1 3 (snd (addItem 7 1 2 ex_db)) = (Inl (no_such_column ''p.stock_quantity''), ex_db)
   \<and> cart (snd (addItem 7 1 3 (snd (addItem 7 1 2 ex_db)))) = []
   \<and> filter (is_line 7 1) (cart (snd (addItem 7 1 3 (snd (addItem 7 1 2 (with_columns ex_db))))))
       = [(ex_line 1 1 5)\<lparr>c_created_at := 1000\<rparr>]
   \<and> addItem 7 1 4 (snd (addItem 7 1 2 (with_columns ex_db)))
       = (Inl InsufficientStock, snd (addItem 7 1 2 (with_columns ex_db)))
   \<and> error_message InsufficientStock = ''Quantidade solicitada excede o estoque disponivel''
   \<and> \<not> str_includes (error_message InsufficientStock) (show_int (p_stock_quantity ex_pA))"
proof -
  have a: "available_product 1 ex_db = Some ex_pA"
    by (simp add: available_product_def ex_db_def ex_pA_def)
  have r: "addItem 7 1 q ex_db = (Inl (no_such_column ''p.stock_quantity''), ex_db)" for q
    using a by (simp add: addItem_repository ex_db_def repository_schema_def)
  have aw: "available_product 1 (with_columns ex_db) = Some ex_pA"
    by (simp add: available_product_def with_columns_def ex_db_def ex_pA_def)
  have w: "products_stock_quantity (db_schema (with_columns ex_db))"
    "find (is_line 7 1) (cart (with_columns ex_db)) = None"
    "(2::rat) \<le> of_int (p_stock_quantity ex_pA)"
    by (simp_all add: with_columns_def ex_db_def ex_pA_def)
  from addItem_twice_with_column [OF w(1) aw w(2) _ _ w(3), of 3]
    addItem_twice_with_column [OF w(1) aw w(2) _ _ w(3), of 4]
  have "filter (is_line 7 1) (cart (snd (addItem 7 1 3 (snd (addItem 7 1 2 (with_columns ex_db))))))
       = [(ex_line 1 1 5)\<lparr>c_created_at := 1000\<rparr>]"
    and "addItem 7 1 4 (snd (addItem 7 1 2 (with_columns ex_db)))
       = (Inl InsufficientStock, snd (addItem 7 1 2 (with_columns ex_db)))"
    by (simp_all add: ex_pA_def ex_line_def with_columns_def ex_db_def InsufficientStock_def
        msg_insufficient_stock_def)
  with a r [of 2] r [of 3] insufficient_stock_no_amount [of "p_stock_quantity ex_pA"]
  show ?thesis
    by (simp add: InsufficientStock_def msg_insufficient_stock_def ex_db_def)
qed

theorem addItem_never_accumulates_witness:
  "isl (fst (addItem 7 1 2 ex_db)) \<and> cart (snd (addItem 7 1 2 ex_db)) = []"
  using addItem_never_accumulates by (simp add: ex_db_def)

subsection \<open>The quantity invariant\<close>

lemma cart_inv_removeItem: "cart_inv s \<Longrightarrow> cart_inv (snd (removeItem u p s))"
  by (simp add: cart_inv_def removeItem_def Let_def)

lemma cart_inv_clearCart: "cart_inv s \<Longrightarrow> cart_inv (snd (clearCart u s))"
  by (simp add: cart_inv_def clearCart_def Let_def)

lemma removeItem_deletes: "filter (is_line u p) (cart (snd (removeItem u p s))) = []"
  by (simp add: removeItem_def Let_def)

lemma addItem_repository_state:
  "\<not> products_stock_quantity (db_schema s) \<Longrightarrow> snd (addItem u p q s) = s \<and> isl (fst (addItem u p q s))"
  by (simp add: addItem_repository split: option.splits)

text \<open>
  C7. On the schema of the repository, every Cart Engine mutation preserves the
  invariant that every stored cart line has a quantity of at least 1, for all inputs,
  quantities of 0 or less included: \<open>addItem\<close> and \<open>updateQuantity\<close> with a positive
  quantity fail before they write and leave the database as it was, \<open>removeItem\<close> and
  \<open>clearCart\<close> only delete, and \<open>updateQuantity\<close> with a quantity of 0 or less deletes
  the line and stores nothing.
\<close>

theorem cart_inv_preserved:
  "\<not> products_stock_quantity (db_schema s) \<Longrightarrow> cart_inv s \<Longrightarrow>
     cart_inv (snd (addItem u p q s))
     \<and> cart_inv (snd (updateQuantity u p q s))
     \<and> cart_inv (snd (removeItem u p s))
     \<and> cart_inv (snd (clearCart u s))
     \<and> (q \<le> 0 \<longrightarrow> filter (is_line u p) (cart (snd (updateQuantity u p q s))) = [])
     \<and> snd (addItem u p q s) = s
     \<and> (0 < q \<longrightarrow> snd (updateQuantity u p q s) = s)"
proof -
  assume r: "\<not> products_stock_quantity (db_schema s)" and i: "cart_inv s"
  have a: "snd (addItem u p q s) = s"
    using addItem_repository_state [OF r] by simp
  have pos: "0 < q \<Longrightarrow> snd (updateQuantity u p q s) = s"
    using updateQuantity_repository [OF r] by simp
  have neg: "q \<le> 0 \<Longrightarrow> snd (updateQuantity u p q s) = snd (removeItem u p s)"
    by (simp add: updateQuantity_def split: prod.splits)
  have u: "cart_inv (snd (updateQuantity u p q s))"
  proof (cases "q \<le> 0")
    case True
    with neg cart_inv_removeItem [OF i] show ?thesis by simp
  next
    case False
    with pos i show ?thesis by simp
  qed
  from a pos neg u i cart_inv_removeItem [OF i] cart_inv_clearCart [OF i] removeItem_deletes
  show ?thesis by simp
qed

theorem cart_inv_preserved_witness:
  "cart_inv ex_two_lines
   \<and> cart_inv (snd (addItem 7 1 0 ex_two_lines))
   \<and> cart_inv (snd (addItem 7 3 (- 4) ex_two_lines))
   \<and> cart_inv (snd (updateQuantity 7 1 0 ex_two_lines))
   \<and> filter (is_line 7 1) (cart (snd (updateQuantity 7 1 0 ex_two_lines))) = []"
proof -
  have r: "\<not> products_stock_quantity (db_schema ex_two_lines)"
    by (simp add: ex_two_lines_def ex_db_def repository_schema_def)
  have h: "cart_inv ex_two_lines"
    by (simp add: cart_inv_def ex_two_lines_def ex_line_def)
  from cart_inv_preserved [OF r h, of 7 1 0] cart_inv_preserved [OF r h, of 7 3 "- 4"] h
  show ?thesis by simp
qed

text \<open>
  On a products table with a \<^verbatim>\<open>stock_quantity\<close> column, \<open>addItem\<close> with quantity 0
  for a product the user has no line for would store a line with quantity 0.
\<close>

lemma addItem_zero_with_column:
  "cart (snd (addItem 7 1 0 (with_columns ex_db))) = [(ex_line 1 1 0)\<lparr>c_created_at := 1000\<rparr>]
   \<and> \<not> cart_inv (snd (addItem 7 1 0 (with_columns ex_db)))"
  by (simp add: cart_inv_def addItem_def available_product_def getItem_def insert_cart_def
      exceeds_def stock_quantity_of_def Let_def with_columns_def ex_db_def ex_pA_def ex_line_def
      is_line_def)

section \<open>Cart validation\<close>

lemma join_available_status: "(c, p) \<in> set (join_available s cs) \<Longrightarrow> p_status p = ''available''"
  by (induction cs) (auto split: option.splits if_splits)

lemma getByUser_available:
  "getByUser u s = Inr view \<Longrightarrow> item \<in> set (cv_items view) \<Longrightarrow>
     vi_product_status item = ''available''"
proof -
  assume g: "getByUser u s = Inr view" and m: "item \<in> set (cv_items view)"
  from g have "set (cv_items view)
      = make_view_item ` set (join_available s (filter (\<lambda>c. c_user_id c = u) (cart s)))"
    by (auto simp: getByUser_def Let_def split: if_splits)
  with m obtain c p where
    r: "(c, p) \<in> set (join_available s (filter (\<lambda>c. c_user_id c = u) (cart s)))"
    and i: "item = make_view_item (c, p)"
    by auto
  from join_available_status [OF r] i show ?thesis
    by (simp add: make_view_item_def)
qed

lemma check_items_available:
  "(\<And>item. item \<in> set xs \<Longrightarrow> vi_product_status item = ''available'') \<Longrightarrow>
     set (check_items xs)
       = msg_exceeds_stock ` {item \<in> set xs. vi_quantity item > of_int (vi_stock_quantity item)}"
  by (induction xs) auto

text \<open>
  What \<open>validateCart\<close> reports where the cart view can be read: the empty-cart message on
  a view without lines, and otherwise exactly the stock messages of the lines of the
  view whose quantity exceeds the stock. The view holds only lines of available
  products, so no message about an unavailable product is ever produced.
\<close>

lemma validateCart_with_column:
  assumes g: "getByUser u s = Inr view"
  shows "(cv_items view = [] \<longrightarrow>
      validateCart u s = Inr \<lparr>v_valid = False, v_errors = [msg_cart_empty], v_cart = None\<rparr>)
   \<and> (cv_items view \<noteq> [] \<longrightarrow>
      (\<exists>v. validateCart u s = Inr v
         \<and> set (v_errors v)
             = msg_exceeds_stock `
                 {item \<in> set (cv_items view). vi_quantity item > of_int (vi_stock_quantity item)}
         \<and> (v_valid v \<longleftrightarrow>
              (\<forall>item \<in> set (cv_items view). vi_quantity item \<le> of_int (vi_stock_quantity item)))))"
proof -
  let ?items = "cv_items view"
  have e: "set (check_items ?items)
      = msg_exceeds_stock ` {item \<in> set ?items. vi_quantity item > of_int (vi_stock_quantity item)}"
    by (rule check_items_available) (rule getByUser_available [OF g])
  have "check_items ?items = [] \<longleftrightarrow> set (check_items ?items) = {}"
    by simp
  also have "\<dots> \<longleftrightarrow> (\<forall>item \<in> set ?items. vi_quantity item \<le> of_int (vi_stock_quantity item))"
    unfolding e by auto
  finally have v: "check_items ?items = []
      \<longleftrightarrow> (\<forall>item \<in> set ?items. vi_quantity item \<le> of_int (vi_stock_quantity item))" .
  show ?thesis
    using e v g by (simp add: validateCart_def Let_def)
qed

text \<open>
  C5, at a failing input. User 7 has a line of A, which is available, and a line of C,
  which is sold. \<open>validateCart\<close> reports no violation for the line of C: on the schema of
  the repository it throws, because the query of \<open>getByUser\<close> names the column
  \<^verbatim>\<open>stock_quantity\<close>; on a table with the column it answers that the cart is valid,
  with no violation, because the view it checks has already dropped the line of C.
\<close>

theorem validateCart_skips_unavailable:
  "map c_product_id (cart ex_unavailable_line) = [1, 3]
   \<and> map_option p_status (product_by_id 3 ex_unavailable_line) = Some ''sold''
   \<and> validateCart 7 ex_unavailable_line = Inl (no_such_column ''p.stock_quantity'')
   \<and> (case validateCart 7 (with_columns ex_unavailable_line) of
         Inl e \<Rightarrow> False | Inr v \<Rightarrow> v_valid v \<and> v_errors v = [])"
  by (simp add: validateCart_def getByUser_def make_view_item_def product_by_id_def Let_def ex_defs)

theorem validateCart_skips_unavailable_witness:
  "validateCart 7 ex_unavailable_line = Inl (no_such_column ''p.stock_quantity'')"
  using validateCart_skips_unavailable by simp

section \<open>Order Engine properties\<close>

subsection \<open>Creation\<close>

text \<open>
  C9, at a failing input. \<open>Order_create\<close> with the two frozen lines of the example cart
  inserts nothing: its INSERT names the column \<^verbatim>\<open>notes\<close>, which the orders table
  does not have, and is refused before any row is written. The products are unchanged.
  On a table with the column it inserts the order row with total 25.50 and the two
  order-item rows, and leaves the products unchanged.
\<close>

theorem Order_create_inserts_nothing:
  "Order_create ex_order_data ex_two_lines
       = (Inl (no_column_named ''orders'' ''notes''), ex_two_lines)
   \<and> orders (snd (Order_create ex_order_data ex_two_lines)) = []
   \<and> order_items (snd (Order_create ex_order_data ex_two_lines)) = []
   \<and> products (snd (Order_create ex_order_data ex_two_lines)) = [ex_pA, ex_pB, ex_pC]
   \<and> orders (snd (Order_create ex_order_data (with_columns ex_two_lines)))
       = [\<lparr>o_id = 1, o_user_id = 7, o_total_amount = 51 / 2, o_status = ''pending'',
           o_shipping_address = Some ''Rua das Flores 100, Sao Paulo'',
           o_payment_method = Some ''pix'', o_payment_status = ''pending'', o_notes = None\<rparr>]
   \<and> order_items (snd (Order_create ex_order_data (with_columns ex_two_lines)))
       = [\<lparr>oi_id = 1, oi_order_id = 1, oi_product_id = 1, oi_quantity = 2, oi_price = 10\<rparr>,
          \<lparr>oi_id = 2, oi_order_id = 1, oi_product_id = 2, oi_quantity = 1, oi_price = 11 / 2\<rparr>]
   \<and> products (snd (Order_create ex_order_data (with_columns ex_two_lines))) = [ex_pA, ex_pB, ex_pC]"
  by (simp add: Order_create_def insert_order_def insert_order_item_def Let_def ex_order_data_def
      ex_two_lines_def ex_db_def with_columns_def repository_schema_def)

theorem Order_create_inserts_nothing_witness:
  "isl (fst (Order_create ex_order_data ex_two_lines))
   \<and> length (orders (snd (Order_create ex_order_data ex_two_lines))) = 0"
  using Order_create_inserts_nothing by (simp add: ex_two_lines_def ex_db_def)

text \<open>
  X1. No operation of the Cart Engine, the Order Engine or the checkout handler writes
  the products table, on any schema and whether it fails or not: the stock of every
  product is left as it was. \<open>Product_updateStock\<close> sets the stock of the products with
  the given id and of no other.
\<close>

theorem products_never_written:
  "products (snd (Order_create d s)) = products s
   \<and> products (snd (create req s)) = products s
   \<and> products (snd (addItem u p q s)) = products s
   \<and> products (snd (updateQuantity u p q s)) = products s
   \<and> products (snd (removeItem u p s)) = products s
   \<and> products (snd (clearCart u s)) = products s
   \<and> products (snd (updateStatus i st n s)) = products s
   \<and> products (snd (Order_cancel i r s)) = products s
   \<and> map p_stock (products (snd (Product_updateStock p k s)))
       = map (\<lambda>x. if p_id x = p then k else p_stock x) (products s)"
  by (simp add: Order_create_products create_state addItem_products
      updateQuantity_products removeItem_products clearCart_products updateStatus_products
      Order_cancel_products Product_updateStock_def)

theorem products_never_written_witness:
  "products (snd (Order_create ex_order_data (with_columns ex_two_lines))) = [ex_pA, ex_pB, ex_pC]
   \<and> products (snd (create ex_request ex_two_lines)) = [ex_pA, ex_pB, ex_pC]
   \<and> map p_stock (products (snd (Product_updateStock 2 8 ex_two_lines))) = [5, 8, 3]"
  using products_never_written [of ex_order_data "with_columns ex_two_lines"]
    products_never_written [of _ ex_two_lines ex_request _ _ _ _ _ _ _ 8]
  by (simp add: ex_two_lines_def ex_db_def with_columns_def ex_pA_def ex_pB_def ex_pC_def)

subsection \<open>Cancellation\<close>

lemma set_status_id: "o_id (set_status i st n row) = o_id row"
  by (simp add: set_status_def)

lemma find_map_set_status:
  "find (\<lambda>row. o_id row = i) (map (set_status i st n) rows)
     = map_option (set_status i st n) (find (\<lambda>row. o_id row = i) rows)"
  by (induction rows) (simp_all add: set_status_id)

lemma find_Some_holds: "find P xs = Some x \<Longrightarrow> P x"
  by (induction xs) (auto split: if_splits)

lemma findById_row:
  "findById i s = Some order0 \<Longrightarrow>
     find (\<lambda>row. o_id row = i) (orders s) = Some (ov_order order0)
     \<and> o_id (ov_order order0) = i
     \<and> order0 = \<lparr>ov_order = ov_order order0,
                  ov_items = filter (\<lambda>x. oi_order_id x = i) (order_items s)\<rparr>"
  by (auto simp: findById_def split: option.splits dest: find_Some_holds)

lemma findById_after_set_status:
  assumes "findById i s = Some order0" and "n \<noteq> []"
  shows "findById i (s\<lparr>orders := map (set_status i st (Some n)) (orders s)\<rparr>)
     = Some (order0\<lparr>ov_order := (ov_order order0)\<lparr>o_status := st, o_notes := Some n\<rparr>\<rparr>)"
proof -
  from findById_row [OF assms(1)]
  have r: "find (\<lambda>row. o_id row = i) (orders s) = Some (ov_order order0)"
    and k: "o_id (ov_order order0) = i"
    and e: "order0 = \<lparr>ov_order = ov_order order0,
                  ov_items = filter (\<lambda>x. oi_order_id x = i) (order_items s)\<rparr>"
    by simp_all
  have "findById i (s\<lparr>orders := map (set_status i st (Some n)) (orders s)\<rparr>)
     = Some \<lparr>ov_order = set_status i st (Some n) (ov_order order0),
             ov_items = filter (\<lambda>x. oi_order_id x = i) (order_items s)\<rparr>"
    by (simp add: findById_def find_map_set_status r)
  also have "set_status i st (Some n) (ov_order order0)
     = (ov_order order0)\<lparr>o_status := st, o_notes := Some n\<rparr>"
    using k assms(2) by (simp add: set_status_def truthy_notes_def)
  finally show ?thesis
    by (subst (2) e) simp
qed

lemma findById_updateStatus:
  "orders_notes (db_schema s) \<Longrightarrow> findById i s = Some order0 \<Longrightarrow>
   st \<in> set validStatuses \<Longrightarrow> n \<noteq> [] \<Longrightarrow>
   updateStatus i st (Some n) s =
     (Inr (Some (order0\<lparr>ov_order := (ov_order order0)\<lparr>o_status := st, o_notes := Some n\<rparr>\<rparr>)),
      s\<lparr>orders := map (set_status i st (Some n)) (orders s)\<rparr>)"
  by (simp add: updateStatus_def Let_def findById_after_set_status)

lemma Order_cancel_with_notes:
  assumes col: "orders_notes (db_schema s)" and f: "findById orderId s = Some order0"
  shows
    "(fst (Order_cancel orderId reason s) = Inl InvalidTransition
        \<longleftrightarrow> o_status (ov_order order0) = ''delivered'' \<or> o_status (ov_order order0) = ''cancelled'')
   \<and> (isl (fst (Order_cancel orderId reason s))
        \<longleftrightarrow> o_status (ov_order order0) = ''delivered'' \<or> o_status (ov_order order0) = ''cancelled'')
   \<and> (o_status (ov_order order0) = ''delivered'' \<or> o_status (ov_order order0) = ''cancelled''
        \<longrightarrow> snd (Order_cancel orderId reason s) = s)
   \<and> (o_status (ov_order order0) \<noteq> ''delivered'' \<and> o_status (ov_order order0) \<noteq> ''cancelled''
        \<longrightarrow> (\<exists>order1.
              fst (Order_cancel orderId reason s) = Inr (Some order1)
              \<and> findById orderId (snd (Order_cancel orderId reason s)) = Some order1
              \<and> o_status (ov_order order1) = ''cancelled''
              \<and> o_notes (ov_order order1) = Some (cancel_notes reason)
              \<and> o_payment_status (ov_order order1) = o_payment_status (ov_order order0)
              \<and> o_total_amount (ov_order order1) = o_total_amount (ov_order order0)
              \<and> ov_items order1 = ov_items order0))"
proof -
  let ?st = "o_status (ov_order order0)"
  let ?terminal = "?st = ''delivered'' \<or> ?st = ''cancelled''"
  have v: "''cancelled'' \<in> set validStatuses"
    by (simp add: validStatuses_def)
  have t: "?terminal \<Longrightarrow> Order_cancel orderId reason s = (Inl InvalidTransition, s)"
    using f by (auto simp: Order_cancel_def)
  let ?o1 = "order0\<lparr>ov_order := (ov_order order0)\<lparr>o_status := ''cancelled'',
                 o_notes := Some (cancel_notes reason)\<rparr>\<rparr>"
  let ?s1 = "s\<lparr>orders := map (set_status orderId ''cancelled'' (Some (cancel_notes reason))) (orders s)\<rparr>"
  have n: "\<not> ?terminal \<Longrightarrow> Order_cancel orderId reason s = (Inr (Some ?o1), ?s1)"
    using f findById_updateStatus [OF col f v cancel_notes_nonempty, of reason]
    by (simp add: Order_cancel_def)
  have stored: "findById orderId ?s1 = Some ?o1"
    by (rule findById_after_set_status [OF f cancel_notes_nonempty])
  show ?thesis
  proof (cases ?terminal)
    case True
    with t show ?thesis by auto
  next
    case False
    with n stored show ?thesis by auto
  qed
qed

text \<open>
  C6, at a failing input. Order 1 of user 7 is pending. \<open>Order_cancel\<close> does not succeed
  on it: the notes of a cancellation are never empty, so \<open>updateStatus\<close> names the column
  \<^verbatim>\<open>notes\<close>, which the orders table does not have, and the UPDATE is refused; the
  order stays pending. On a delivered order the call fails with \<open>InvalidTransition\<close>. On
  a table with the column the pending order is cancelled and the reason recorded
  (\<open>Order_cancel_with_notes\<close>).
\<close>

theorem Order_cancel_pending_throws:
  "findById 1 ex_orders = Some \<lparr>ov_order = ex_order 1 ''pending'', ov_items = []\<rparr>
   \<and> Order_cancel 1 (Some ''mudei de ideia'') ex_orders = (Inl (no_such_column ''notes''), ex_orders)
   \<and> Order_cancel 1 None ex_orders = (Inl (no_such_column ''notes''), ex_orders)
   \<and> Order_cancel 2 (Some ''mudei de ideia'') ex_orders = (Inl InvalidTransition, ex_orders)
   \<and> fst (Order_cancel 1 (Some ''mudei de ideia'') (with_columns ex_orders))
       = Inr (Some \<lparr>ov_order = (ex_order 1 ''cancelled'')\<lparr>o_notes := Some ''Cancelado: mudei de ideia''\<rparr>,
                    ov_items = []\<rparr>)"
proof -
  have f1: "findById 1 ex_orders = Some \<lparr>ov_order = ex_order 1 ''pending'', ov_items = []\<rparr>"
    by (simp add: findById_def ex_orders_def ex_order_def ex_db_def)
  have f2: "findById 2 ex_orders = Some \<lparr>ov_order = ex_order 2 ''delivered'', ov_items = []\<rparr>"
    by (simp add: findById_def ex_orders_def ex_order_def ex_db_def)
  have r: "\<not> orders_notes (db_schema ex_orders)"
    by (simp add: ex_orders_def ex_db_def repository_schema_def)
  have "fst (Order_cancel 1 (Some ''mudei de ideia'') (with_columns ex_orders))
       = Inr (Some \<lparr>ov_order = (ex_order 1 ''cancelled'')\<lparr>o_notes := Some ''Cancelado: mudei de ideia''\<rparr>,
                    ov_items = []\<rparr>)"
    by (simp add: Order_cancel_def updateStatus_def findById_def set_status_def cancel_notes_def
        truthy_notes_def validStatuses_def Let_def with_columns_def ex_orders_def ex_order_def
        ex_db_def)
  with f1 Order_cancel_repository [OF r f1] Order_cancel_repository [OF r f2]
  show ?thesis by (simp add: ex_order_def)
qed

theorem Order_cancel_pending_throws_witness:
  "isl (fst (Order_cancel 1 (Some ''mudei de ideia'') ex_orders))
   \<and> map o_status (orders (snd (Order_cancel 1 (Some ''mudei de ideia'') ex_orders)))
       = [''pending'', ''delivered'', ''shipped'']"
  using Order_cancel_pending_throws
  by (simp add: ex_orders_def ex_order_def ex_db_def)

text \<open>
  The HTTP handler \<open>OrderController_cancel\<close> tests the status before it calls
  \<open>Order_cancel\<close>, and refuses a shipped order as well.
\<close>

lemma OrderController_cancel_shipped:
  "OrderController_cancel \<lparr>cq_id = 3, cq_user_id = 7, cq_is_admin = False, cq_reason = None\<rparr> ex_orders
     = (reply 400 False ''Pedido nao pode ser cancelado neste status'', ex_orders)"
  by (simp add: OrderController_cancel_def findById_def ex_orders_def ex_order_def ex_db_def)

section \<open>Checkout at the inputs of the specification\<close>

text \<open>
  C1, at a failing input. The cart of user 7 is the two-line cart of the example (A at
  10.00 with quantity 2, B at 5.50 with quantity 1). The handler answers 500 and
  creates no order, and the cart keeps its two lines: on the schema of the repository
  the first read, \<open>getByUser\<close>, is refused; on a table with the column
  \<^verbatim>\<open>stock_quantity\<close> the cart is valid with subtotal 25.50, and the handler fails with
  \<^verbatim>\<open>Cart.getTotal is not a function\<close>.
\<close>

theorem checkout_valid_cart_fails:
  "create ex_request ex_two_lines
       = (server_error (no_such_column ''p.stock_quantity''), ex_two_lines)
   \<and> (case validateCart 7 (with_columns ex_two_lines) of
         Inl e \<Rightarrow> False | Inr v \<Rightarrow> v_valid v)
   \<and> (case getByUser 7 (with_columns ex_two_lines) of
         Inl e \<Rightarrow> False | Inr view \<Rightarrow> sm_subtotal (cv_summary view) = 51 / 2)
   \<and> create ex_request (with_columns ex_two_lines)
       = (server_error (TypeError ''Cart.getTotal is not a function''), with_columns ex_two_lines)"
  by (simp add: create_cases validateCart_def getByUser_def make_view_item_def product_by_id_def
      Let_def ex_defs)

theorem checkout_valid_cart_fails_witness:
  "r_status (fst (create ex_request ex_two_lines)) = 500
   \<and> orders (snd (create ex_request ex_two_lines)) = []
   \<and> cart (snd (create ex_request ex_two_lines)) = [ex_line 1 1 2, ex_line 2 2 1]
   \<and> r_status (fst (create ex_request (with_columns ex_two_lines))) = 500
   \<and> orders (snd (create ex_request (with_columns ex_two_lines))) = []
   \<and> cart (snd (create ex_request (with_columns ex_two_lines))) = [ex_line 1 1 2, ex_line 2 2 1]"
  using checkout_valid_cart_fails
  by (simp add: server_error_def reply_def ex_two_lines_def ex_db_def with_columns_def)

text \<open>
  C2, at a failing input. The only line of user 7 asks for 9 of B, of which 3 are in
  stock. No order is created, and no answer carries the violation: on the schema of the
  repository the handler answers 500; on a table with the column
  \<^verbatim>\<open>stock_quantity\<close> validation produces one violation and the handler answers 400
  \<^verbatim>\<open>Carrinho invalido\<close> with \<^verbatim>\<open>undefined\<close> details.
\<close>

theorem checkout_over_stock_drops_violations:
  "create ex_request ex_over_stock
       = (server_error (no_such_column ''p.stock_quantity''), ex_over_stock)
   \<and> (case validateCart 7 (with_columns ex_over_stock) of
         Inl e \<Rightarrow> False
       | Inr v \<Rightarrow> v_errors v
           = [''Quantidade solicitada para '' @ dquote @ ''B'' @ dquote @ '' excede o estoque (3 disponivel)''])
   \<and> create ex_request (with_columns ex_over_stock)
       = (CartInvalid JUndefined, with_columns ex_over_stock)"
  by (simp add: create_cases validateCart_def getByUser_def make_view_item_def product_by_id_def
      Let_def msg_exceeds_stock_def show_int_def digit_char_def ex_defs)

theorem checkout_over_stock_drops_violations_witness:
  "r_status (fst (create ex_request ex_over_stock)) = 500
   \<and> orders (snd (create ex_request ex_over_stock)) = []
   \<and> r_status (fst (create ex_request (with_columns ex_over_stock))) = 400
   \<and> r_details (fst (create ex_request (with_columns ex_over_stock))) = JUndefined
   \<and> orders (snd (create ex_request (with_columns ex_over_stock))) = []"
  using checkout_over_stock_drops_violations
  by (simp add: CartInvalid_def server_error_def reply_def ex_over_stock_def ex_db_def with_columns_def)

text \<open>
  C3, at a failing input. User 7 has no cart line. The handler does not answer with
  \<open>EmptyCart\<close> (\<^verbatim>\<open>Carrinho esta vazio\<close>): on the schema of the repository it answers
  500; on a table with the column \<^verbatim>\<open>stock_quantity\<close> its empty-cart test never holds
  and the answer is the \<open>CartInvalid\<close> of the validation step, without details. No order
  is created.
\<close>

theorem checkout_empty_cart_not_EmptyCart:
  "filter (\<lambda>c. c_user_id c = 7) (cart ex_db) = []
   \<and> create ex_request ex_db = (server_error (no_such_column ''p.stock_quantity''), ex_db)
   \<and> create ex_request (with_columns ex_db) = (CartInvalid JUndefined, with_columns ex_db)
   \<and> server_error (no_such_column ''p.stock_quantity'') \<noteq> EmptyCart
   \<and> CartInvalid JUndefined \<noteq> EmptyCart"
  by (simp add: create_cases validateCart_def getByUser_def Let_def CartInvalid_def EmptyCart_def
      server_error_def reply_def ex_defs)

theorem checkout_empty_cart_not_EmptyCart_witness:
  "r_message (fst (create ex_request ex_db)) = ''Erro interno do servidor''
   \<and> r_message (fst (create ex_request (with_columns ex_db))) = ''Carrinho invalido''
   \<and> orders (snd (create ex_request ex_db)) = []
   \<and> orders (snd (create ex_request (with_columns ex_db))) = []"
  using checkout_empty_cart_not_EmptyCart
  by (simp add: CartInvalid_def server_error_def reply_def ex_db_def with_columns_def)

end
